theory Spec2Isabelle
  imports Main
begin

section \<open>Data model of \<open>browser_use/browser/browser.py\<close>\<close>

text \<open>
  Python values that occur in the startup-options dictionary handed to the external
  driver: \<open>None\<close>, booleans, strings, lists and dictionaries with string keys.
  A dictionary is an association list in insertion order.
\<close>

datatype py_value =
    PyNone
  | PyBool bool
  | PyStr string
  | PyList "py_value list"
  | PyDict "(string \<times> py_value) list"

type_synonym py_dict = "(string \<times> py_value) list"

text \<open>
  Raised errors. \<open>except Exception\<close> catches the instances of \<open>Exception\<close> only:
  \<open>KeyboardInterrupt\<close>, \<open>SystemExit\<close> and \<open>asyncio.CancelledError\<close> derive from
  \<open>BaseException\<close> directly and pass through such a handler. The string is the
  error's message.
\<close>

datatype exn =
    Exc string
  | BaseExc string

fun is_Exception :: "exn \<Rightarrow> bool" where
  "is_Exception (Exc m) = True"
| "is_Exception (BaseExc m) = False"

text \<open>The dataclass \<open>BrowserConfig\<close> (lines 9-16).\<close>

record BrowserConfig =
  headless :: bool
  disable_security :: bool
  extra_chromium_args :: "string list"
  chrome_instance_path :: "string option"
  proxy :: "py_dict option"

text \<open>
  The generated \<open>BrowserConfig.__init__\<close>: every field is a keyword argument with a
  default; an argument that is not passed is \<open>None\<close> here.
\<close>

definition BrowserConfig_init ::
  "bool option \<Rightarrow> bool option \<Rightarrow> string list option \<Rightarrow> string option \<Rightarrow> py_dict option
     \<Rightarrow> BrowserConfig" where
  "BrowserConfig_init h ds args path px =
     \<lparr> headless = (case h of None \<Rightarrow> False | Some v \<Rightarrow> v),
       disable_security = (case ds of None \<Rightarrow> True | Some v \<Rightarrow> v),
       extra_chromium_args = (case args of None \<Rightarrow> [] | Some v \<Rightarrow> v),
       chrome_instance_path = path,
       proxy = px \<rparr>"

text \<open>
  A driver is an object of the external class \<open>Drission\<close>; only its identity matters
  here. An event loop likewise.
\<close>

datatype driver = Driver nat

datatype loop = Loop nat

text \<open>The manager object: \<open>self.config\<close> and \<open>self.driver\<close> (lines 23-24).\<close>

record Browser =
  config :: BrowserConfig
  driver :: "driver option"

subsection \<open>What the manager does to the outside\<close>

text \<open>
  The five \<open>logger.debug\<close> messages of the module (lines 22, 39, 54, 56, 71).
\<close>

datatype log_msg =
    Initializing
  | DriverCreated py_dict
  | ClosedOk
  | CloseFailed exn
  | DestructorFailed exn

text \<open>
  The trace of a run: every call to an external collaborator, with its outcome, and every
  log line, in program order.
\<close>

datatype event =
    DrissionCall py_dict "exn + driver"
  | QuitCall driver "exn option"
  | GcCollect
  | LogDebug log_msg
  | CreateTask

text \<open>
  The external driver library is a parameter. \<open>Drission x tr options\<close> is the outcome
  of \<open>Drission(options=options)\<close> and \<open>quit x tr d\<close> the outcome of
  \<open>await asyncio.to_thread(d.quit)\<close> (\<open>None\<close>: it returned), each after the history
  \<open>tr\<close>, so that a collaborator may answer differently from one call to the next.
\<close>

record ext =
  Drission :: "event list \<Rightarrow> py_dict \<Rightarrow> exn + driver"
  quit :: "event list \<Rightarrow> driver \<Rightarrow> exn option"

type_synonym state = "Browser \<times> event list"

section \<open>Operations\<close>

text \<open>\<open>Browser.__init__\<close> (lines 21-24); the default argument is \<open>BrowserConfig()\<close>.\<close>

definition Browser_init :: "BrowserConfig option \<Rightarrow> event list \<Rightarrow> state" where
  "Browser_init cfg tr =
     (\<lparr> config = (case cfg of None \<Rightarrow> BrowserConfig_init None None None None None
                              | Some c \<Rightarrow> c),
        driver = None \<rparr>,
      tr @ [LogDebug Initializing])"

text \<open>The dictionary literal \<open>options\<close> of \<open>Browser._create_driver\<close> (lines 31-37).\<close>

definition startup_options :: "BrowserConfig \<Rightarrow> py_dict" where
  "startup_options c =
     [(''headless'', PyBool (headless c)),
      (''disable_security'', PyBool (disable_security c)),
      (''extra_chromium_args'', PyList (map PyStr (extra_chromium_args c))),
      (''chrome_instance_path'',
         (case chrome_instance_path c of None \<Rightarrow> PyNone | Some p \<Rightarrow> PyStr p)),
      (''proxy'', (case proxy c of None \<Rightarrow> PyNone | Some d \<Rightarrow> PyDict d))]"

text \<open>\<open>Browser._create_driver\<close> (lines 30-40).\<close>

definition create_driver :: "ext \<Rightarrow> state \<Rightarrow> (exn + driver) \<times> state" where
  "create_driver x s =
     (case s of (self, tr) \<Rightarrow>
        let options = startup_options (config self)
        in (case Drission x tr options of
              Inl e \<Rightarrow> (Inl e, self, tr @ [DrissionCall options (Inl e)])
            | Inr d \<Rightarrow>
                (Inr d, self\<lparr>driver := Some d\<rparr>,
                 tr @ [DrissionCall options (Inr d), LogDebug (DriverCreated options)])))"

text \<open>\<open>Browser.new_context\<close> (lines 26-28): \<open>_create_driver\<close> on a worker thread, awaited.\<close>

definition new_context :: "ext \<Rightarrow> state \<Rightarrow> (exn + driver) \<times> state" where
  "new_context x s = create_driver x s"

text \<open>\<open>Browser.get_driver\<close> (lines 42-46).\<close>

definition get_driver :: "ext \<Rightarrow> state \<Rightarrow> (exn + driver) \<times> state" where
  "get_driver x s =
     (case s of (self, tr) \<Rightarrow>
        (case driver self of
           None \<Rightarrow> new_context x s
         | Some d \<Rightarrow> (Inr d, s)))"

text \<open>
  A handler \<open>except Exception as e: logger.debug(msg e)\<close> applied to the outcome of its
  \<open>try\<close> block.
\<close>

definition except_Exception ::
  "(exn \<Rightarrow> log_msg) \<Rightarrow> (exn + unit) \<times> state \<Rightarrow> (exn + unit) \<times> state" where
  "except_Exception msg r =
     (case r of
        (Inl e, self, tr) \<Rightarrow>
          if is_Exception e then (Inr (), self, tr @ [LogDebug (msg e)]) else (Inl e, self, tr)
      | (Inr u, self, tr) \<Rightarrow> (Inr u, self, tr))"

text \<open>The \<open>try\<close> block of \<open>Browser.close\<close> (lines 51-54).\<close>

definition close_try :: "ext \<Rightarrow> state \<Rightarrow> (exn + unit) \<times> state" where
  "close_try x s =
     (case s of (self, tr) \<Rightarrow>
        (case driver self of
           None \<Rightarrow> (Inr (), self, tr)
         | Some d \<Rightarrow>
             (case quit x tr d of
                Some e \<Rightarrow> (Inl e, self, tr @ [QuitCall d (Some e)])
              | None \<Rightarrow>
                  (Inr (), self\<lparr>driver := None\<rparr>,
                   tr @ [QuitCall d None, LogDebug ClosedOk]))))"

text \<open>
  \<open>Browser.close\<close> (lines 48-58): the \<open>try\<close> block, the handler, and \<open>gc.collect()\<close> in
  the \<open>finally\<close> clause, which runs on every path and lets a pending error continue.
\<close>

definition close :: "ext \<Rightarrow> state \<Rightarrow> (exn + unit) \<times> state" where
  "close x s =
     (case except_Exception CloseFailed (close_try x s) of
        (r, self, tr) \<Rightarrow> (r, self, tr @ [GcCollect]))"

subsection \<open>The finalizer\<close>

text \<open>
  The part of \<open>asyncio\<close> the finalizer uses. The argument \<open>rl\<close> is the loop running in
  the current thread, if there is one. \<open>asyncio.get_running_loop()\<close> returns it and raises
  \<open>RuntimeError\<close> when there is none; \<open>loop.is_running()\<close> tells whether a loop is
  running; \<open>asyncio.run(coro)\<close> raises \<open>RuntimeError\<close> under a running loop and otherwise
  runs the coroutine to completion on a fresh loop.
\<close>

definition get_running_loop :: "loop option \<Rightarrow> exn + loop" where
  "get_running_loop rl =
     (case rl of None \<Rightarrow> Inl (Exc ''no running event loop'') | Some l \<Rightarrow> Inr l)"

definition is_running :: "loop option \<Rightarrow> loop \<Rightarrow> bool" where
  "is_running rl l = (rl = Some l)"

definition asyncio_run ::
  "loop option \<Rightarrow> (state \<Rightarrow> (exn + unit) \<times> state) \<Rightarrow> state \<Rightarrow> (exn + unit) \<times> state" where
  "asyncio_run rl coro s =
     (case rl of
        Some l \<Rightarrow> (Inl (Exc ''asyncio.run() cannot be called from a running event loop''), s)
      | None \<Rightarrow> coro s)"

text \<open>
  The \<open>try\<close> block of \<open>Browser.__del__\<close> (lines 63-69). A driver object is truthy.
  \<open>loop.create_task(self.close())\<close> only schedules the coroutine: nothing of \<open>close\<close>
  has run when the finalizer returns.
\<close>

definition del_try :: "ext \<Rightarrow> loop option \<Rightarrow> state \<Rightarrow> (exn + unit) \<times> state" where
  "del_try x rl s =
     (case s of (self, tr) \<Rightarrow>
        (case driver self of
           None \<Rightarrow> (Inr (), self, tr)
         | Some d \<Rightarrow>
             (case get_running_loop rl of
                Inl e \<Rightarrow> (Inl e, self, tr)
              | Inr l \<Rightarrow>
                  if is_running rl l then (Inr (), self, tr @ [CreateTask])
                  else asyncio_run rl (close x) (self, tr))))"

text \<open>\<open>Browser.__del__\<close> (lines 60-71).\<close>

definition Browser_del :: "ext \<Rightarrow> loop option \<Rightarrow> state \<Rightarrow> (exn + unit) \<times> state" where
  "Browser_del x rl s = except_Exception DestructorFailed (del_try x rl s)"

section \<open>Callers and observations\<close>

text \<open>A caller that awaits \<open>get_driver\<close> \<open>n\<close> times in a row and keeps every outcome.\<close>

fun get_driver_seq :: "ext \<Rightarrow> nat \<Rightarrow> state \<Rightarrow> (exn + driver) list \<times> state" where
  "get_driver_seq x 0 s = ([], s)"
| "get_driver_seq x (Suc n) s =
     (case get_driver x s of
        (r, s') \<Rightarrow> (case get_driver_seq x n s' of (rs, s'') \<Rightarrow> (r # rs, s'')))"

text \<open>
  A caller that makes any sequence of \<open>get_driver\<close> and \<open>close\<close> calls on one manager,
  going on after a call that raised.
\<close>

datatype call = Obtain | Close

fun step :: "ext \<Rightarrow> state \<Rightarrow> call \<Rightarrow> state" where
  "step x s Obtain = snd (get_driver x s)"
| "step x s Close = snd (close x s)"

definition run :: "ext \<Rightarrow> state \<Rightarrow> call list \<Rightarrow> state" where
  "run x s cs = foldl (step x) s cs"

text \<open>What a trace shows: the constructor calls and the shutdown calls in it.\<close>

fun is_DrissionCall :: "event \<Rightarrow> bool" where
  "is_DrissionCall (DrissionCall opts r) = True"
| "is_DrissionCall e = False"

fun is_QuitCall :: "event \<Rightarrow> bool" where
  "is_QuitCall (QuitCall d r) = True"
| "is_QuitCall e = False"

text \<open>
  The drivers a trace leaves alive: those a constructor call returned and no shutdown call
  that returned has ended since.
\<close>

fun track :: "driver list \<Rightarrow> event \<Rightarrow> driver list" where
  "track ds (DrissionCall opts (Inr d)) = ds @ [d]"
| "track ds (QuitCall d None) = removeAll d ds"
| "track ds e = ds"

definition owned :: "event list \<Rightarrow> driver list" where
  "owned tr = foldl track [] tr"

text \<open>
  The manager owns at most one driver: the drivers its trace leaves alive are the one it
  refers to, or none when it refers to none.
\<close>

definition one_owner :: "state \<Rightarrow> bool" where
  "one_owner s = (owned (snd s) = (case driver (fst s) of None \<Rightarrow> [] | Some d \<Rightarrow> [d]))"

subsection \<open>Sample collaborators\<close>

text \<open>
  The configuration of the module's own example (line 77), a driver library that works,
  one whose shutdown raises and one whose constructor raises.
\<close>

definition main_config :: BrowserConfig where
  "main_config = BrowserConfig_init (Some True) None None None None"

definition ext_ok :: ext where
  "ext_ok = \<lparr> Drission = (\<lambda>tr options. Inr (Driver (length tr))), quit = (\<lambda>tr d. None) \<rparr>"

definition ext_quit_raises :: ext where
  "ext_quit_raises =
     \<lparr> Drission = (\<lambda>tr options. Inr (Driver (length tr))),
       quit = (\<lambda>tr d. Some (Exc ''browser has crashed'')) \<rparr>"

definition ext_ctor_raises :: ext where
  "ext_ctor_raises =
     \<lparr> Drission = (\<lambda>tr options. Inl (Exc ''browser executable not found'')),
       quit = (\<lambda>tr d. None) \<rparr>"

section \<open>Properties\<close>

subsection \<open>Auxiliary facts\<close>

lemma owned_append: "owned (tr @ es) = foldl track (owned tr) es"
  by (simp add: owned_def)

lemma get_driver_active: "driver self = Some d \<Longrightarrow> get_driver x (self, tr) = (Inr d, self, tr)"
  by (simp add: get_driver_def)

lemma get_driver_returns:
  "get_driver x (self, tr) = (Inr d, self', tr') \<Longrightarrow> driver self' = Some d"
  by (auto simp: get_driver_def new_context_def create_driver_def Let_def
           split: option.splits sum.splits)

lemma get_driver_seq_active:
  "driver self = Some d \<Longrightarrow> get_driver_seq x n (self, tr) = (replicate n (Inr d), self, tr)"
  by (induction n) (simp_all add: get_driver_active)

lemma one_owner_init: "one_owner (Browser_init cfg [])"
  by (simp add: one_owner_def Browser_init_def owned_def)

lemma one_owner_get_driver: "one_owner s \<Longrightarrow> one_owner (snd (get_driver x s))"
  by (cases s)
     (auto simp: one_owner_def get_driver_def new_context_def create_driver_def Let_def
        owned_append split: option.splits sum.splits)

lemma one_owner_close: "one_owner s \<Longrightarrow> one_owner (snd (close x s))"
  by (cases s)
     (auto simp: one_owner_def close_def close_try_def except_Exception_def owned_append
           split: option.splits)

lemma one_owner_step: "one_owner s \<Longrightarrow> one_owner (step x s c)"
  by (cases c) (simp_all add: one_owner_get_driver one_owner_close)

lemma one_owner_run: "one_owner s \<Longrightarrow> one_owner (run x s cs)"
  unfolding run_def by (induction cs arbitrary: s) (simp_all add: one_owner_step)

lemma one_owner_length: "one_owner s \<Longrightarrow> length (owned (snd s)) \<le> 1"
  by (simp add: one_owner_def split: option.splits)

lemma close_clears:
  "driver (fst s) = Some d \<Longrightarrow> quit x (snd s) d = None \<Longrightarrow> driver (fst (snd (close x s))) = None"
  by (cases s) (simp add: close_def close_try_def except_Exception_def)

lemma get_driver_no_driver:
  "driver (fst s) = None \<Longrightarrow> get_driver x s = create_driver x s"
  by (cases s) (simp add: get_driver_def new_context_def)

lemma get_driver_populates:
  "fst (get_driver x s) = Inr d \<Longrightarrow> driver (fst (snd (get_driver x s))) = Some d"
  by (cases s, cases "get_driver x s") (auto dest: get_driver_returns)

lemma running_loop_is_running: "get_running_loop rl = Inr l \<Longrightarrow> is_running rl l"
  by (simp add: get_running_loop_def is_running_def split: option.splits)

lemma del_no_loop:
  "driver self = Some d \<Longrightarrow>
     Browser_del x None (self, tr) =
       (Inr (), self, tr @ [LogDebug (DestructorFailed (Exc ''no running event loop''))])"
  by (simp add: Browser_del_def del_try_def get_running_loop_def except_Exception_def)

lemma del_running_loop:
  "driver self = Some d \<Longrightarrow>
     Browser_del x (Some l) (self, tr) = (Inr (), self, tr @ [CreateTask])"
  by (simp add: Browser_del_def del_try_def get_running_loop_def is_running_def except_Exception_def)

lemma del_never_raises: "fst (Browser_del x rl s) = Inr ()"
  by (cases s)
     (auto simp: Browser_del_def del_try_def get_running_loop_def is_running_def
       except_Exception_def split: option.splits)

text \<open>
  An error outside \<open>Exception\<close> raised by the shutdown passes through \<open>close\<close>, after the
  collection pass.
\<close>

lemma close_base_exception:
  "driver self = Some d \<Longrightarrow> quit x tr d = Some e \<Longrightarrow> \<not> is_Exception e \<Longrightarrow>
     close x (self, tr) = (Inl e, self, tr @ [QuitCall d (Some e), GcCollect])"
  by (simp add: close_def close_try_def except_Exception_def)

text \<open>No operation of the manager changes its configuration.\<close>

lemma config_get_driver: "config (fst (snd (get_driver x s))) = config (fst s)"
  by (cases s)
     (simp add: get_driver_def new_context_def create_driver_def Let_def
        split: option.splits sum.splits)

lemma config_close: "config (fst (snd (close x s))) = config (fst s)"
  by (cases s)
     (simp add: close_def close_try_def except_Exception_def split: option.splits)

lemma config_del: "config (fst (snd (Browser_del x rl s))) = config (fst s)"
  by (cases s)
     (simp add: Browser_del_def del_try_def get_running_loop_def is_running_def
        except_Exception_def split: option.splits)

lemma startup_options_keys:
  "map fst (startup_options c) =
     [''headless'', ''disable_security'', ''extra_chromium_args'', ''chrome_instance_path'',
      ''proxy'']"
  by (simp add: startup_options_def)

lemma startup_options_values:
  "map_of (startup_options c) ''headless'' = Some (PyBool (headless c))"
  "map_of (startup_options c) ''disable_security'' = Some (PyBool (disable_security c))"
  "map_of (startup_options c) ''extra_chromium_args'' =
     Some (PyList (map PyStr (extra_chromium_args c)))"
  "map_of (startup_options c) ''chrome_instance_path'' =
     Some (case chrome_instance_path c of None \<Rightarrow> PyNone | Some p \<Rightarrow> PyStr p)"
  "map_of (startup_options c) ''proxy'' =
     Some (case proxy c of None \<Rightarrow> PyNone | Some p \<Rightarrow> PyDict p)"
  by (simp_all add: startup_options_def)

lemma get_driver_constructs:
  "driver self = None \<Longrightarrow> get_driver x (self, tr) = (r, self', tr') \<Longrightarrow>
     \<exists>rest. tr' = tr @ DrissionCall (startup_options (config self))
                         (Drission x tr (startup_options (config self))) # rest
      \<and> filter is_DrissionCall rest = []
      \<and> (\<forall>d. Drission x tr (startup_options (config self)) = Inr d \<longrightarrow>
             r = Inr d \<and> self' = self\<lparr>driver := Some d\<rparr>)"
  by (auto simp: get_driver_def new_context_def create_driver_def Let_def split: sum.splits)

lemma get_driver_ext_ok:
  "get_driver ext_ok (\<lparr> config = c, driver = None \<rparr>, tr) =
     (Inr (Driver (length tr)), \<lparr> config = c, driver = Some (Driver (length tr)) \<rparr>,
      tr @ [DrissionCall (startup_options c) (Inr (Driver (length tr))),
            LogDebug (DriverCreated (startup_options c))])"
  by (simp add: get_driver_def new_context_def create_driver_def Let_def ext_ok_def)

lemma close_ext_ok:
  "close ext_ok (\<lparr> config = c, driver = Some d \<rparr>, tr) =
     (Inr (), \<lparr> config = c, driver = None \<rparr>, tr @ [QuitCall d None, LogDebug ClosedOk, GcCollect])"
  by (simp add: close_def close_try_def except_Exception_def ext_ok_def)

subsection \<open>Claims\<close>

text \<open>
  C1, as amended. For a manager that holds a driver, when the driver's shutdown raises an
  instance of \<open>Exception\<close> during \<open>close\<close>, \<open>close\<close> returns normally: the shutdown was
  called once, the failure is logged, the collection pass runs, and the manager is left
  as it was, its driver reference still set.
\<close>

theorem close_quit_raises:
  "driver self = Some d \<Longrightarrow> quit x tr d = Some e \<Longrightarrow> is_Exception e \<Longrightarrow>
     close x (self, tr) =
       (Inr (), self, tr @ [QuitCall d (Some e), LogDebug (CloseFailed e), GcCollect])"
  by (simp add: close_def close_try_def except_Exception_def)

theorem close_quit_raises_witness:
  "driver \<lparr> config = main_config, driver = Some (Driver 0) \<rparr> = Some (Driver 0)
   \<and> quit ext_quit_raises [] (Driver 0) = Some (Exc ''browser has crashed'')
   \<and> is_Exception (Exc ''browser has crashed'')
   \<and> close ext_quit_raises (\<lparr> config = main_config, driver = Some (Driver 0) \<rparr>, []) =
       (Inr (), \<lparr> config = main_config, driver = Some (Driver 0) \<rparr>,
        [QuitCall (Driver 0) (Some (Exc ''browser has crashed'')),
         LogDebug (CloseFailed (Exc ''browser has crashed'')), GcCollect])"
proof -
  have h1: "driver \<lparr> config = main_config, driver = Some (Driver 0) \<rparr> = Some (Driver 0)"
    by simp
  have h2: "quit ext_quit_raises [] (Driver 0) = Some (Exc ''browser has crashed'')"
    by (simp add: ext_quit_raises_def)
  have h3: "is_Exception (Exc ''browser has crashed'')"
    by simp
  show ?thesis
    using h1 h2 h3 close_quit_raises [OF h1 h2 h3] by simp
qed

text \<open>
  C1 as stated fails: with a shutdown that raises, \<open>close\<close> returns normally but the
  driver reference is not cleared, since line 53 is skipped by the raise on line 52.
\<close>

theorem close_quit_raises_counterexample:
  "\<not> (fst (close ext_quit_raises (\<lparr> config = main_config, driver = Some (Driver 0) \<rparr>, [])) = Inr ()
      \<and> driver (fst (snd (close ext_quit_raises
                              (\<lparr> config = main_config, driver = Some (Driver 0) \<rparr>, [])))) = None)"
  by (simp add: close_def close_try_def except_Exception_def ext_quit_raises_def)

text \<open>
  C2. The finalizer of a manager that still holds a driver is to schedule \<open>close\<close> on
  the running loop, or else to run \<open>close\<close> to completion on a fresh loop, and never to
  raise. Without a running loop the code does not run \<open>close\<close>:
  \<open>asyncio.get_running_loop()\<close> on line 65 raises, the handler on line 70 logs that, and
  the finalizer returns with the driver never shut down and its reference still set.
\<close>

theorem finalizer_without_loop:
  "Browser_del ext_ok None (\<lparr> config = main_config, driver = Some (Driver 0) \<rparr>, []) =
     (Inr (), \<lparr> config = main_config, driver = Some (Driver 0) \<rparr>,
      [LogDebug (DestructorFailed (Exc ''no running event loop''))])"
  by (simp add: del_no_loop)

text \<open>
  C3. Once a \<open>get_driver\<close> call has returned a driver, every further \<open>get_driver\<close>
  call with no \<open>close\<close> in between returns that same driver, constructs nothing and
  leaves the manager and the trace as they were.
\<close>

theorem get_driver_reuses:
  "get_driver x s = (Inr d, s1) \<Longrightarrow> get_driver_seq x' n s1 = (replicate n (Inr d), s1)"
proof -
  assume a: "get_driver x s = (Inr d, s1)"
  obtain self tr where s: "s = (self, tr)" by (cases s)
  obtain self1 tr1 where s1: "s1 = (self1, tr1)" by (cases s1)
  from a s s1 have "driver self1 = Some d" by (auto dest: get_driver_returns)
  then show ?thesis by (simp add: s1 get_driver_seq_active)
qed

theorem get_driver_reuses_witness:
  "get_driver ext_ok (\<lparr> config = main_config, driver = None \<rparr>, []) =
     (Inr (Driver 0),
      \<lparr> config = main_config, driver = Some (Driver 0) \<rparr>,
      [DrissionCall (startup_options main_config) (Inr (Driver 0)),
       LogDebug (DriverCreated (startup_options main_config))])
   \<and> get_driver_seq ext_ok 3
        (\<lparr> config = main_config, driver = Some (Driver 0) \<rparr>,
         [DrissionCall (startup_options main_config) (Inr (Driver 0)),
          LogDebug (DriverCreated (startup_options main_config))]) =
       ([Inr (Driver 0), Inr (Driver 0), Inr (Driver 0)],
        \<lparr> config = main_config, driver = Some (Driver 0) \<rparr>,
        [DrissionCall (startup_options main_config) (Inr (Driver 0)),
         LogDebug (DriverCreated (startup_options main_config))])"
proof -
  have h: "get_driver ext_ok (\<lparr> config = main_config, driver = None \<rparr>, []) =
     (Inr (Driver 0),
      \<lparr> config = main_config, driver = Some (Driver 0) \<rparr>,
      [DrissionCall (startup_options main_config) (Inr (Driver 0)),
       LogDebug (DriverCreated (startup_options main_config))])"
    by (simp add: get_driver_def new_context_def create_driver_def ext_ok_def Let_def)
  have r: "replicate 3 (Inr (Driver 0) :: exn + driver) = [Inr (Driver 0), Inr (Driver 0), Inr (Driver 0)]"
    by (simp add: numeral_3_eq_3)
  show ?thesis
    using h r get_driver_reuses [where x' = ext_ok and n = 3, OF h] by simp
qed

text \<open>
  C4. On a manager that holds no driver, \<open>close\<close> returns normally, calls no shutdown,
  logs nothing and leaves the manager without a driver; only the collection pass runs.
  Closing again does the same, so \<open>close\<close> may be repeated.
\<close>

theorem close_no_driver:
  "driver self = None \<Longrightarrow>
     close x (self, tr) = (Inr (), self, tr @ [GcCollect])
     \<and> close x (snd (close x (self, tr))) = (Inr (), self, tr @ [GcCollect, GcCollect])"
  by (simp add: close_def close_try_def except_Exception_def)

theorem close_no_driver_witness:
  "driver \<lparr> config = main_config, driver = None \<rparr> = None
   \<and> close ext_ok (\<lparr> config = main_config, driver = None \<rparr>, [LogDebug Initializing]) =
       (Inr (), \<lparr> config = main_config, driver = None \<rparr>, [LogDebug Initializing, GcCollect])
   \<and> close ext_ok
        (snd (close ext_ok (\<lparr> config = main_config, driver = None \<rparr>, [LogDebug Initializing]))) =
       (Inr (), \<lparr> config = main_config, driver = None \<rparr>,
        [LogDebug Initializing, GcCollect, GcCollect])"
proof -
  have h: "driver \<lparr> config = main_config, driver = None \<rparr> = None"
    by simp
  show ?thesis
    using h close_no_driver [OF h, of ext_ok "[LogDebug Initializing]"]
    by (simp add: close_def close_try_def except_Exception_def)
qed

text \<open>
  C5, as amended. On a manager that holds a driver, \<open>close\<close> calls that driver's
  shutdown exactly once and runs the collection pass exactly once, as its last action, on
  every path; when the shutdown returns, \<open>close\<close> returns normally and the manager
  holds no driver afterwards; when the shutdown raises, the manager is left as it was, its
  driver reference not cleared.
\<close>

theorem close_active:
  "driver self = Some d \<Longrightarrow> close x (self, tr) = (r, self', tr') \<Longrightarrow>
     take (length tr) tr' = tr
     \<and> filter is_QuitCall (drop (length tr) tr') = [QuitCall d (quit x tr d)]
     \<and> filter (\<lambda>e. e = GcCollect) (drop (length tr) tr') = [GcCollect]
     \<and> last tr' = GcCollect
     \<and> (quit x tr d = None \<longrightarrow> r = Inr () \<and> driver self' = None)
     \<and> (\<forall>e. quit x tr d = Some e \<longrightarrow> self' = self \<and> driver self' = Some d)"
  by (auto simp: close_def close_try_def except_Exception_def split: option.splits if_splits)

theorem close_active_witness:
  "driver \<lparr> config = main_config, driver = Some (Driver 1) \<rparr> = Some (Driver 1)
   \<and> close ext_ok (\<lparr> config = main_config, driver = Some (Driver 1) \<rparr>, [LogDebug Initializing]) =
       (Inr (), \<lparr> config = main_config, driver = None \<rparr>,
        [LogDebug Initializing, QuitCall (Driver 1) None, LogDebug ClosedOk, GcCollect])
   \<and> quit ext_ok [LogDebug Initializing] (Driver 1) = None
   \<and> filter is_QuitCall
        (drop (length [LogDebug Initializing])
           [LogDebug Initializing, QuitCall (Driver 1) None, LogDebug ClosedOk, GcCollect]) =
       [QuitCall (Driver 1) (quit ext_ok [LogDebug Initializing] (Driver 1))]
   \<and> last [LogDebug Initializing, QuitCall (Driver 1) None, LogDebug ClosedOk, GcCollect] = GcCollect
   \<and> driver \<lparr> config = main_config, driver = None \<rparr> = None
   \<and> close ext_quit_raises
        (\<lparr> config = main_config, driver = Some (Driver 1) \<rparr>, [LogDebug Initializing]) =
       (Inr (), \<lparr> config = main_config, driver = Some (Driver 1) \<rparr>,
        [LogDebug Initializing, QuitCall (Driver 1) (Some (Exc ''browser has crashed'')),
         LogDebug (CloseFailed (Exc ''browser has crashed'')), GcCollect])
   \<and> quit ext_quit_raises [LogDebug Initializing] (Driver 1) = Some (Exc ''browser has crashed'')
   \<and> fst (snd (close ext_quit_raises
          (\<lparr> config = main_config, driver = Some (Driver 1) \<rparr>, [LogDebug Initializing]))) =
       \<lparr> config = main_config, driver = Some (Driver 1) \<rparr>
   \<and> driver (fst (snd (close ext_quit_raises
          (\<lparr> config = main_config, driver = Some (Driver 1) \<rparr>, [LogDebug Initializing])))) =
       Some (Driver 1)"
proof -
  have h1: "driver \<lparr> config = main_config, driver = Some (Driver 1) \<rparr> = Some (Driver 1)"
    by simp
  have h2: "close ext_ok (\<lparr> config = main_config, driver = Some (Driver 1) \<rparr>, [LogDebug Initializing]) =
       (Inr (), \<lparr> config = main_config, driver = None \<rparr>,
        [LogDebug Initializing, QuitCall (Driver 1) None, LogDebug ClosedOk, GcCollect])"
    by (simp add: close_def close_try_def except_Exception_def ext_ok_def)
  have h3: "quit ext_ok [LogDebug Initializing] (Driver 1) = None"
    by (simp add: ext_ok_def)
  have h4: "close ext_quit_raises
        (\<lparr> config = main_config, driver = Some (Driver 1) \<rparr>, [LogDebug Initializing]) =
       (Inr (), \<lparr> config = main_config, driver = Some (Driver 1) \<rparr>,
        [LogDebug Initializing, QuitCall (Driver 1) (Some (Exc ''browser has crashed'')),
         LogDebug (CloseFailed (Exc ''browser has crashed'')), GcCollect])"
    by (simp add: close_def close_try_def except_Exception_def ext_quit_raises_def)
  have h5: "quit ext_quit_raises [LogDebug Initializing] (Driver 1) = Some (Exc ''browser has crashed'')"
    by (simp add: ext_quit_raises_def)
  show ?thesis
    using h1 h2 h3 h4 h5 close_active [OF h1 h2] close_active [OF h1 h4] by simp
qed

text \<open>
  C5 as stated fails: after a shutdown that raises, \<open>close\<close> has called it once and
  has run the collection pass, but the manager still holds the driver.
\<close>

theorem close_active_counterexample:
  "\<not> (length (filter is_QuitCall
          (snd (snd (close ext_quit_raises
             (\<lparr> config = main_config, driver = Some (Driver 1) \<rparr>, [LogDebug Initializing]))))) = 1
      \<and> driver (fst (snd (close ext_quit_raises
             (\<lparr> config = main_config, driver = Some (Driver 1) \<rparr>, [LogDebug Initializing])))) = None
      \<and> last (snd (snd (close ext_quit_raises
             (\<lparr> config = main_config, driver = Some (Driver 1) \<rparr>, [LogDebug Initializing]))))
          = GcCollect)"
  by (simp add: close_def close_try_def except_Exception_def ext_quit_raises_def)

text \<open>
  C6. On a manager that holds no driver, when the constructor raises on the options built
  from the stored configuration, \<open>get_driver\<close> and \<open>new_context\<close> raise that same error:
  nothing in the manager catches it.
\<close>

theorem construction_error_propagates:
  "driver self = None \<Longrightarrow> Drission x tr (startup_options (config self)) = Inl e \<Longrightarrow>
     fst (get_driver x (self, tr)) = Inl e \<and> fst (new_context x (self, tr)) = Inl e"
  by (simp add: get_driver_def new_context_def create_driver_def Let_def)

theorem construction_error_propagates_witness:
  "driver \<lparr> config = main_config, driver = None \<rparr> = None
   \<and> Drission ext_ctor_raises [] (startup_options (config \<lparr> config = main_config, driver = None \<rparr>)) =
       Inl (Exc ''browser executable not found'')
   \<and> fst (get_driver ext_ctor_raises (\<lparr> config = main_config, driver = None \<rparr>, [])) =
       Inl (Exc ''browser executable not found'')
   \<and> fst (new_context ext_ctor_raises (\<lparr> config = main_config, driver = None \<rparr>, [])) =
       Inl (Exc ''browser executable not found'')"
proof -
  have h1: "driver \<lparr> config = main_config, driver = None \<rparr> = None"
    by simp
  have h2: "Drission ext_ctor_raises []
              (startup_options (config \<lparr> config = main_config, driver = None \<rparr>)) =
            Inl (Exc ''browser executable not found'')"
    by (simp add: ext_ctor_raises_def)
  show ?thesis
    by (intro conjI) (rule h1, rule h2, rule construction_error_propagates [OF h1 h2, THEN conjunct1],
      rule construction_error_propagates [OF h1 h2, THEN conjunct2])
qed

text \<open>
  C7. When \<open>get_driver\<close> runs on a manager that holds no driver, it calls the
  constructor once, with a dictionary whose keys are exactly \<open>headless\<close>,
  \<open>disable_security\<close>, \<open>extra_chromium_args\<close>, \<open>chrome_instance_path\<close> and
  \<open>proxy\<close> and whose values are the fields of the stored configuration; the driver the
  constructor returns is returned and stored as the manager's reference.
\<close>

theorem create_driver_options:
  "driver self = None \<Longrightarrow> get_driver x (self, tr) = (r, self', tr') \<Longrightarrow>
     \<exists>opts rest.
        tr' = tr @ DrissionCall opts (Drission x tr opts) # rest
      \<and> filter is_DrissionCall rest = []
      \<and> map fst opts =
          [''headless'', ''disable_security'', ''extra_chromium_args'', ''chrome_instance_path'',
           ''proxy'']
      \<and> map_of opts ''headless'' = Some (PyBool (headless (config self)))
      \<and> map_of opts ''disable_security'' = Some (PyBool (disable_security (config self)))
      \<and> map_of opts ''extra_chromium_args'' =
          Some (PyList (map PyStr (extra_chromium_args (config self))))
      \<and> map_of opts ''chrome_instance_path'' =
          Some (case chrome_instance_path (config self) of None \<Rightarrow> PyNone | Some p \<Rightarrow> PyStr p)
      \<and> map_of opts ''proxy'' =
          Some (case proxy (config self) of None \<Rightarrow> PyNone | Some p \<Rightarrow> PyDict p)
      \<and> (\<forall>d. Drission x tr opts = Inr d \<longrightarrow> r = Inr d \<and> self' = self\<lparr>driver := Some d\<rparr>)"
proof -
  assume nd: "driver self = None" and g: "get_driver x (self, tr) = (r, self', tr')"
  from get_driver_constructs [OF nd g] obtain rest where
    r: "tr' = tr @ DrissionCall (startup_options (config self))
                         (Drission x tr (startup_options (config self))) # rest
      \<and> filter is_DrissionCall rest = []
      \<and> (\<forall>d. Drission x tr (startup_options (config self)) = Inr d \<longrightarrow>
             r = Inr d \<and> self' = self\<lparr>driver := Some d\<rparr>)" ..
  show ?thesis
    apply (rule exI [of _ "startup_options (config self)"])
    apply (rule exI [of _ rest])
    using r by (simp add: startup_options_keys startup_options_values)
qed

theorem create_driver_options_witness:
  "driver \<lparr> config = main_config, driver = None \<rparr> = None
   \<and> get_driver ext_ok (\<lparr> config = main_config, driver = None \<rparr>, []) =
       (Inr (Driver 0), \<lparr> config = main_config, driver = Some (Driver 0) \<rparr>,
        [DrissionCall (startup_options main_config) (Inr (Driver 0)),
         LogDebug (DriverCreated (startup_options main_config))])
   \<and> (\<exists>opts rest.
        [DrissionCall (startup_options main_config) (Inr (Driver 0)),
         LogDebug (DriverCreated (startup_options main_config))] =
          [] @ DrissionCall opts (Drission ext_ok [] opts) # rest
      \<and> filter is_DrissionCall rest = []
      \<and> map fst opts =
          [''headless'', ''disable_security'', ''extra_chromium_args'', ''chrome_instance_path'',
           ''proxy'']
      \<and> map_of opts ''headless'' =
          Some (PyBool (headless (config \<lparr> config = main_config, driver = None \<rparr>)))
      \<and> map_of opts ''disable_security'' =
          Some (PyBool (disable_security (config \<lparr> config = main_config, driver = None \<rparr>)))
      \<and> map_of opts ''extra_chromium_args'' =
          Some (PyList (map PyStr
             (extra_chromium_args (config \<lparr> config = main_config, driver = None \<rparr>))))
      \<and> map_of opts ''chrome_instance_path'' =
          Some (case chrome_instance_path (config \<lparr> config = main_config, driver = None \<rparr>) of
                  None \<Rightarrow> PyNone | Some p \<Rightarrow> PyStr p)
      \<and> map_of opts ''proxy'' =
          Some (case proxy (config \<lparr> config = main_config, driver = None \<rparr>) of
                  None \<Rightarrow> PyNone | Some p \<Rightarrow> PyDict p)
      \<and> (\<forall>d. Drission ext_ok [] opts = Inr d \<longrightarrow>
            Inr (Driver 0) = (Inr d :: exn + driver)
            \<and> \<lparr> config = main_config, driver = Some (Driver 0) \<rparr> =
                \<lparr> config = main_config, driver = None \<rparr>\<lparr>driver := Some d\<rparr>))"
proof -
  have h1: "driver \<lparr> config = main_config, driver = None \<rparr> = None"
    by simp
  have h2: "get_driver ext_ok (\<lparr> config = main_config, driver = None \<rparr>, []) =
       (Inr (Driver 0), \<lparr> config = main_config, driver = Some (Driver 0) \<rparr>,
        [DrissionCall (startup_options main_config) (Inr (Driver 0)),
         LogDebug (DriverCreated (startup_options main_config))])"
    by (simp add: get_driver_def new_context_def create_driver_def Let_def ext_ok_def)
  show ?thesis
    by (intro conjI) (rule h1, rule h2, rule create_driver_options [OF h1 h2])
qed

text \<open>
  C8. After any sequence of \<open>get_driver\<close> and \<open>close\<close> calls on a new manager, the
  drivers it has constructed and not shut down are exactly the one it refers to, so at most
  one. The reference is absent at construction, set by a \<open>get_driver\<close> that returns,
  cleared by a \<open>close\<close> whose shutdown returns, and after such a \<open>close\<close> a
  \<open>get_driver\<close> constructs again and sets it again.
\<close>

theorem driver_lifecycle:
  "one_owner (run x (Browser_init cfg []) cs)
   \<and> length (owned (snd (run x (Browser_init cfg []) cs))) \<le> 1
   \<and> driver (fst (Browser_init cfg tr)) = None
   \<and> (fst (get_driver x s) = Inr d \<longrightarrow> driver (fst (snd (get_driver x s))) = Some d)
   \<and> (driver (fst s') = Some d' \<and> quit x (snd s') d' = None \<longrightarrow>
        driver (fst (snd (close x s'))) = None
        \<and> get_driver x (snd (close x s')) = create_driver x (snd (close x s'))
        \<and> (fst (get_driver x (snd (close x s'))) = Inr d'' \<longrightarrow>
             driver (fst (snd (get_driver x (snd (close x s'))))) = Some d''))"
proof (intro conjI impI)
  show inv: "one_owner (run x (Browser_init cfg []) cs)"
    by (rule one_owner_run [OF one_owner_init])
  show "length (owned (snd (run x (Browser_init cfg []) cs))) \<le> 1"
    by (rule one_owner_length [OF inv])
  show "driver (fst (Browser_init cfg tr)) = None"
    by (simp add: Browser_init_def)
  show "driver (fst (snd (get_driver x s))) = Some d" if "fst (get_driver x s) = Inr d"
    using that by (rule get_driver_populates)
  show cleared: "driver (fst (snd (close x s'))) = None"
    if "driver (fst s') = Some d' \<and> quit x (snd s') d' = None"
    using that by (simp add: close_clears)
  show "get_driver x (snd (close x s')) = create_driver x (snd (close x s'))"
    if "driver (fst s') = Some d' \<and> quit x (snd s') d' = None"
    by (rule get_driver_no_driver [OF cleared [OF that]])
  show "driver (fst (snd (get_driver x (snd (close x s'))))) = Some d''"
    if "fst (get_driver x (snd (close x s'))) = Inr d''"
    using that by (rule get_driver_populates)
qed

theorem driver_lifecycle_witness:
  "one_owner (run ext_ok (Browser_init (Some main_config) []) [Obtain, Close, Obtain])
   \<and> length (owned (snd (run ext_ok (Browser_init (Some main_config) []) [Obtain, Close, Obtain]))) \<le> 1
   \<and> driver (fst (run ext_ok (Browser_init (Some main_config) []) [Obtain, Close, Obtain]))
       = Some (Driver 6)
   \<and> fst (get_driver ext_ok (Browser_init (Some main_config) [])) = Inr (Driver 1)
   \<and> driver (fst (snd (get_driver ext_ok (Browser_init (Some main_config) [])))) = Some (Driver 1)
   \<and> quit ext_ok (snd (snd (get_driver ext_ok (Browser_init (Some main_config) [])))) (Driver 1) = None
   \<and> driver (fst (snd (close ext_ok (snd (get_driver ext_ok (Browser_init (Some main_config) [])))))) = None
   \<and> fst (get_driver ext_ok (snd (close ext_ok (snd (get_driver ext_ok (Browser_init (Some main_config) []))))))
       = Inr (Driver 6)
   \<and> driver (fst (snd (get_driver ext_ok
        (snd (close ext_ok (snd (get_driver ext_ok (Browser_init (Some main_config) [])))))))) = Some (Driver 6)"
proof -
  have s1: "get_driver ext_ok (Browser_init (Some main_config) []) =
      (Inr (Driver 1), \<lparr> config = main_config, driver = Some (Driver 1) \<rparr>,
       [LogDebug Initializing, DrissionCall (startup_options main_config) (Inr (Driver 1)),
        LogDebug (DriverCreated (startup_options main_config))])"
    by (simp add: Browser_init_def get_driver_ext_ok)
  have s2: "close ext_ok (snd (get_driver ext_ok (Browser_init (Some main_config) []))) =
      (Inr (), \<lparr> config = main_config, driver = None \<rparr>,
       [LogDebug Initializing, DrissionCall (startup_options main_config) (Inr (Driver 1)),
        LogDebug (DriverCreated (startup_options main_config)),
        QuitCall (Driver 1) None, LogDebug ClosedOk, GcCollect])"
    by (simp add: s1 close_ext_ok)
  have s3: "get_driver ext_ok
        (snd (close ext_ok (snd (get_driver ext_ok (Browser_init (Some main_config) []))))) =
      (Inr (Driver 6), \<lparr> config = main_config, driver = Some (Driver 6) \<rparr>,
       [LogDebug Initializing, DrissionCall (startup_options main_config) (Inr (Driver 1)),
        LogDebug (DriverCreated (startup_options main_config)),
        QuitCall (Driver 1) None, LogDebug ClosedOk, GcCollect,
        DrissionCall (startup_options main_config) (Inr (Driver 6)),
        LogDebug (DriverCreated (startup_options main_config))])"
    by (simp add: s2 get_driver_ext_ok)
  have r: "run ext_ok (Browser_init (Some main_config) []) [Obtain, Close, Obtain] =
      snd (get_driver ext_ok
        (snd (close ext_ok (snd (get_driver ext_ok (Browser_init (Some main_config) []))))))"
    by (simp add: run_def)
  have a: "driver (fst (run ext_ok (Browser_init (Some main_config) []) [Obtain, Close, Obtain]))
       = Some (Driver 6)"
    unfolding r s3 by simp
  have h1: "fst (get_driver ext_ok (Browser_init (Some main_config) [])) = Inr (Driver 1)"
    unfolding s1 by simp
  have h2: "driver (fst (snd (get_driver ext_ok (Browser_init (Some main_config) [])))) = Some (Driver 1)"
    unfolding s1 by simp
  have h3: "quit ext_ok (snd (snd (get_driver ext_ok (Browser_init (Some main_config) [])))) (Driver 1) = None"
    by (simp add: ext_ok_def)
  have h4: "fst (get_driver ext_ok (snd (close ext_ok (snd (get_driver ext_ok (Browser_init (Some main_config) []))))))
       = Inr (Driver 6)"
    unfolding s3 by simp
  show ?thesis
    using a h1 h2 h3 h4
      driver_lifecycle
        [of ext_ok "Some main_config" "[Obtain, Close, Obtain]" "[]"
          "Browser_init (Some main_config) []" "Driver 1"
          "snd (get_driver ext_ok (Browser_init (Some main_config) []))" "Driver 1" "Driver 6"]
    by blast
qed



text \<open>
  C10. A manager constructed with no explicit configuration has the dataclass defaults:
  \<open>headless\<close> false, \<open>disable_security\<close> true, no extra startup arguments, no browser
  executable path and no proxy settings.
\<close>

theorem default_config:
  "config (fst (Browser_init None tr)) =
     \<lparr> headless = False, disable_security = True, extra_chromium_args = [],
       chrome_instance_path = None, proxy = None \<rparr>"
  by (simp add: Browser_init_def BrowserConfig_init_def)

end
